theory Spec2Isabelle
  imports Main "HOL-Library.Sublist"
begin

section \<open>JavaScript values reaching the component\<close>

text \<open>
  The \<open>error\<close> prop is typed \<open>any\<close> and a \<open>catch\<close> clause binds whatever was thrown,
  so the error state holds an arbitrary JavaScript value: \<open>undefined\<close>, \<open>null\<close>, a boolean,
  a number (the integers are modelled), a string, an \<open>Error\<close> object with the standard
  \<open>toString\<close>, or any other object. Such an object is given by what calling its
  \<open>toString()\<close> yields: a text, or nothing when the method is missing or throws (as for
  \<open>Object.create(null)\<close>). An object carries the reference it is identified by; objects
  are not mutated in place (the React contract for props and state), so equal references
  have equal contents and HOL equality on values is \<open>Object.is\<close>. Strings are character
  lists; the only string operations used search for and splice ASCII text.
\<close>

datatype jsval =
  JUndefined
  | JNull
  | JBool bool
  | JNum int
  | JStr string
  | JError nat string string  \<comment> \<open>reference, \<open>name\<close>, \<open>message\<close>\<close>
  | JObject nat "string option"  \<comment> \<open>reference, what \<open>toString()\<close> yields\<close>

text \<open>Truthiness, as tested by \<open>if (errorState)\<close>.\<close>

fun js_truthy :: "jsval \<Rightarrow> bool" where
  "js_truthy JUndefined = False"
| "js_truthy JNull = False"
| "js_truthy (JBool b) = b"
| "js_truthy (JNum i) = (i \<noteq> 0)"
| "js_truthy (JStr s) = (s \<noteq> [])"
| "js_truthy (JError r n m) = True"
| "js_truthy (JObject r ts) = True"

text \<open>Decimal conversion of an integer, as a template literal performs it.\<close>

definition digit_char :: "nat \<Rightarrow> char" where
  "digit_char d = ''0123456789'' ! (d mod 10)"

fun show_nat :: "nat \<Rightarrow> string" where
  "show_nat n =
     (if n < 10 then [digit_char n] else show_nat (n div 10) @ [digit_char (n mod 10)])"

declare show_nat.simps [simp del]

definition show_int :: "int \<Rightarrow> string" where
  "show_int i = (if i < 0 then ''-'' @ show_nat (nat (- i)) else show_nat (nat i))"

text \<open>
  \<open>v.toString()\<close>: a property access on \<open>undefined\<close> or \<open>null\<close> throws a TypeError
  (\<open>None\<close>); \<open>Error.prototype.toString\<close> joins name and message.
\<close>

fun js_toString :: "jsval \<Rightarrow> string option" where
  "js_toString JUndefined = None"
| "js_toString JNull = None"
| "js_toString (JBool b) = Some (if b then ''true'' else ''false'')"
| "js_toString (JNum i) = Some (show_int i)"
| "js_toString (JStr s) = Some s"
| "js_toString (JError r n m) =
     Some (if n = [] then m else if m = [] then n else n @ '': '' @ m)"
| "js_toString (JObject r ts) = ts"

text \<open>\<open>a || b\<close> on numbers: zero is falsy.\<close>

definition js_or_num :: "nat \<Rightarrow> nat \<Rightarrow> nat" where
  "js_or_num a b = (if a \<noteq> 0 then a else b)"

text \<open>\<open>s.includes(pat)\<close>.\<close>

fun js_includes :: "string \<Rightarrow> string \<Rightarrow> bool" where
  "js_includes pat [] = (pat = [])"
| "js_includes pat (c # cs) = (prefix pat (c # cs) \<or> js_includes pat cs)"

text \<open>
  \<open>s.replace(pat, rep)\<close> with a string pattern: only the first occurrence is replaced.
  (The replacement text used by the component contains no \<open>$\<close> pattern.)
\<close>

fun js_replace :: "string \<Rightarrow> string \<Rightarrow> string \<Rightarrow> string" where
  "js_replace pat rep [] = (if pat = [] then rep else [])"
| "js_replace pat rep (c # cs) =
     (if prefix pat (c # cs) then rep @ drop (length pat) (c # cs)
      else c # js_replace pat rep cs)"

section \<open>Catalog model\<close>

text \<open>
  Modelled from the spec: the \<open>Entity\<close> and \<open>LocationSpec\<close> types of the catalog-model
  package, which is not part of the sources at hand. An entity has \<open>metadata.name\<close>,
  \<open>metadata.namespace\<close>, \<open>metadata.description\<close>, \<open>spec.owner\<close>, \<open>spec.lifecycle\<close> and a
  \<open>kind\<close> tag; a location is a \<open>{type, target}\<close> pair.
\<close>

record entity_meta =
  name :: string
  namespace :: "string option"
  description :: "string option"

record entity_spec =
  owner :: string
  lifecycle :: string

record entity =
  kind :: string
  metadata :: entity_meta
  spec :: entity_spec

record LocationSpec =
  loc_type :: string
  target :: string

text \<open>An \<open>Entity[]\<close> value: the array's reference and its elements.\<close>

record entity_array =
  ref :: nat
  elems :: "entity list"

section \<open>Collaborators\<close>

text \<open>
  A call to \<open>catalogApi.addLocation\<close> either throws before returning, or returns a promise
  that rejects (at some point in time, with a reason) or resolves.
\<close>

datatype add_outcome = Throws jsval | Rejects nat jsval | Resolves

text \<open>
  The collaborators the component obtains from its hooks and imports, none of which is
  part of the sources at hand; they are taken as given. Config lookups return a value or
  throw (\<open>Inl\<close>). The catalog client and the starred-entities hook work on a state \<open>'c\<close>
  held outside the component. \<open>findLocationForEntityMeta\<close> lives in \<open>data/utils\<close>,
  \<open>favouriteEntityTooltip\<close> in \<open>FavouriteEntity\<close>.
\<close>

record 'c apis =
  getStringArray :: "string \<Rightarrow> jsval + string list"
  getString :: "string \<Rightarrow> jsval + string"
  addLocation :: "string \<Rightarrow> string \<Rightarrow> 'c \<Rightarrow> add_outcome \<times> 'c"
  getEntities :: "'c \<Rightarrow> (jsval + entity_array) \<times> 'c"
  findLocationForEntityMeta :: "entity_meta \<Rightarrow> LocationSpec option"
  isStarredEntity :: "entity \<Rightarrow> 'c \<Rightarrow> bool"
  toggleStarredEntity :: "entity \<Rightarrow> 'c \<Rightarrow> 'c"
  favouriteEntityTooltip :: "bool \<Rightarrow> string"

text \<open>Every collaborator call is recorded with its outcome.\<close>

datatype api_event =
  GetStringArray string "jsval + string list"
  | GetString string "jsval + string"
  | AddLocation string string add_outcome
  | GetEntities "jsval + entity_array"

text \<open>The value a call threw or rejected with, if it failed.\<close>

fun event_failure :: "api_event \<Rightarrow> jsval option" where
  "event_failure (GetStringArray k r) = (case r of Inl e \<Rightarrow> Some e | Inr _ \<Rightarrow> None)"
| "event_failure (GetString k r) = (case r of Inl e \<Rightarrow> Some e | Inr _ \<Rightarrow> None)"
| "event_failure (AddLocation ty tg out) =
     (case out of Throws e \<Rightarrow> Some e | Rejects t e \<Rightarrow> Some e | Resolves \<Rightarrow> None)"
| "event_failure (GetEntities r) = (case r of Inl e \<Rightarrow> Some e | Inr _ \<Rightarrow> None)"

definition failed :: "api_event \<Rightarrow> bool" where
  "failed ev = (event_failure ev \<noteq> None)"

section \<open>The component\<close>

record CatalogTableProps =
  entities :: entity_array
  loading :: bool
  error :: jsval
  titlePreamble :: string

text \<open>
  Everything the component's code reads or writes: its two state hooks, the dependency
  array remembered by \<open>useEffect\<close> (\<open>None\<close> before the first commit), the state held by
  the collaborators, the record of calls to the config and catalog clients, and the
  \<open>window.open(url, target)\<close> calls made.
\<close>

record 'c system =
  entitiesState :: entity_array
  errorState :: jsval
  deps :: "(jsval \<times> entity_array) option"
  external :: 'c
  calls :: "api_event list"
  opened :: "(string \<times> string) list"

definition setError :: "jsval \<Rightarrow> 'c system \<Rightarrow> 'c system" where
  "setError e sys = sys\<lparr>errorState := e\<rparr>"

definition setEntitiesState :: "entity_array \<Rightarrow> 'c system \<Rightarrow> 'c system" where
  "setEntitiesState es sys = sys\<lparr>entitiesState := es\<rparr>"

text \<open>\<open>useState([])\<close> and \<open>useState()\<close> on mount; \<open>r\<close> is the reference of the fresh array.\<close>

definition mount :: "nat \<Rightarrow> 'c \<Rightarrow> 'c system" where
  "mount r c =
     \<lparr>entitiesState = \<lparr>ref = r, elems = []\<rparr>, errorState = JUndefined, deps = None,
      external = c, calls = [], opened = []\<rparr>"

subsection \<open>The effect mirroring the props\<close>

text \<open>The body of the effect: \<open>setError(error); setEntitiesState(entities)\<close>.\<close>

definition effect_body :: "CatalogTableProps \<Rightarrow> 'c system \<Rightarrow> 'c system" where
  "effect_body p sys = setEntitiesState (entities p) (setError (error p) sys)"

text \<open>
  \<open>useEffect(..., [error, entities])\<close>: the body runs after the first commit and after
  every commit in which one of the two dependencies differs from the remembered one.
\<close>

definition deps_changed :: "CatalogTableProps \<Rightarrow> 'c system \<Rightarrow> bool" where
  "deps_changed p sys =
     (case deps sys of
        None \<Rightarrow> True
      | Some (e, es) \<Rightarrow> e \<noteq> error p \<or> es \<noteq> entities p)"

definition useEffect :: "CatalogTableProps \<Rightarrow> 'c system \<Rightarrow> 'c system" where
  "useEffect p sys =
     (if deps_changed p sys
      then (effect_body p sys)\<lparr>deps := Some (error p, entities p)\<rparr>
      else sys)"

subsection \<open>The bootstrap action\<close>

text \<open>
  The callback mapped over the configured files. For each file, in order, the base URL
  is looked up and \<open>addLocation\<close> is called; a lookup or a call that throws ends the
  mapping at once. Otherwise the promises' outcomes are collected.
\<close>

fun map_files ::
  "'c apis \<Rightarrow> string list \<Rightarrow> 'c \<Rightarrow> (jsval + add_outcome list) \<times> 'c \<times> api_event list" where
  "map_files apis [] c = (Inr [], c, [])"
| "map_files apis (file # files) c =
     (case getString apis ''catalog.baseUrl'' of
        Inl e \<Rightarrow> (Inl e, c, [GetString ''catalog.baseUrl'' (Inl e)])
      | Inr baseUrl \<Rightarrow>
          (case addLocation apis ''github'' (baseUrl @ ''/'' @ file) c of
             (Throws e, c') \<Rightarrow>
               (Inl e, c',
                [GetString ''catalog.baseUrl'' (Inr baseUrl),
                 AddLocation ''github'' (baseUrl @ ''/'' @ file) (Throws e)])
           | (out, c') \<Rightarrow>
               (case map_files apis files c' of
                  (r, c'', evs) \<Rightarrow>
                    (case r of Inl e \<Rightarrow> Inl e | Inr outs \<Rightarrow> Inr (out # outs),
                     c'',
                     GetString ''catalog.baseUrl'' (Inr baseUrl)
                       # AddLocation ''github'' (baseUrl @ ''/'' @ file) out
                       # evs))))"

text \<open>
  \<open>Promise.all\<close>: rejects with the reason of the promise that rejects first in time
  (\<open>Some\<close>), and resolves when none rejects (\<open>None\<close>).
\<close>

fun earliest :: "add_outcome list \<Rightarrow> (nat \<times> jsval) option" where
  "earliest [] = None"
| "earliest (Rejects t e # outs) =
     (case earliest outs of
        None \<Rightarrow> Some (t, e)
      | Some (t', e') \<Rightarrow> if t \<le> t' then Some (t, e) else Some (t', e'))"
| "earliest (out # outs) = earliest outs"

definition Promise_all :: "add_outcome list \<Rightarrow> jsval option" where
  "Promise_all outs = map_option snd (earliest outs)"

text \<open>
  The \<open>try\<close> block of \<open>addMockData\<close>: the value the block ends with (\<open>Inl\<close> for a caught
  error, \<open>Inr\<close> for the fetched entities), the backend state and the calls made.
\<close>

definition addMockData_try ::
  "'c apis \<Rightarrow> 'c \<Rightarrow> (jsval + entity_array) \<times> 'c \<times> api_event list" where
  "addMockData_try apis c =
     (case getStringArray apis ''catalog.entities'' of
        Inl e \<Rightarrow> (Inl e, c, [GetStringArray ''catalog.entities'' (Inl e)])
      | Inr files \<Rightarrow>
          (case map_files apis files c of
             (Inl e, c', evs) \<Rightarrow>
               (Inl e, c', GetStringArray ''catalog.entities'' (Inr files) # evs)
           | (Inr promises, c', evs) \<Rightarrow>
               (case Promise_all promises of
                  Some e \<Rightarrow>
                    (Inl e, c', GetStringArray ''catalog.entities'' (Inr files) # evs)
                | None \<Rightarrow>
                    (case getEntities apis c' of
                       (r, c'') \<Rightarrow>
                         (r, c'',
                          GetStringArray ''catalog.entities'' (Inr files)
                            # evs @ [GetEntities r])))))"

text \<open>
  \<open>addMockData\<close>: the state setters only overwrite, so the handler is modelled as one
  step from the state at the click to the state after its last setter.
\<close>

definition addMockData :: "'c apis \<Rightarrow> 'c system \<Rightarrow> 'c system" where
  "addMockData apis sys =
     (case addMockData_try apis (external sys) of
        (r, c', evs) \<Rightarrow>
          (case r of
             Inr data \<Rightarrow> setEntitiesState data (sys\<lparr>external := c', calls := calls sys @ evs\<rparr>)
           | Inl err \<Rightarrow> setError err (sys\<lparr>external := c', calls := calls sys @ evs\<rparr>)))"

subsection \<open>Table actions\<close>

record 'c action =
  tooltip :: string
  isFreeAction :: bool
  hidden :: bool
  onClick :: "'c system \<Rightarrow> 'c system"

text \<open>An entry of the table's \<open>actions\<close>: a function of the row, or an action object.\<close>

datatype 'c table_action = PerRow "entity \<Rightarrow> 'c action" | Fixed "'c action"

definition window_open :: "string \<Rightarrow> string \<Rightarrow> 'c system \<Rightarrow> 'c system" where
  "window_open url tgt sys = sys\<lparr>opened := opened sys @ [(url, tgt)]\<rparr>"

definition createEditLink :: "LocationSpec \<Rightarrow> string" where
  "createEditLink location =
     (if loc_type location = ''github''
      then js_replace ''/blob/'' ''/edit/'' (target location)
      else target location)"

text \<open>\<open>location?.type !== 'github'\<close>.\<close>

definition not_github :: "LocationSpec option \<Rightarrow> bool" where
  "not_github location =
     (case location of None \<Rightarrow> True | Some l \<Rightarrow> loc_type l \<noteq> ''github'')"

text \<open>
  The \<open>actions\<close> array. An action that sets no \<open>hidden\<close> or \<open>isFreeAction\<close> leaves them
  \<open>undefined\<close>, which the table reads as false.
\<close>

definition actions :: "'c apis \<Rightarrow> 'c system \<Rightarrow> 'c table_action list" where
  "actions apis sys =
     [PerRow (\<lambda>rowData.
        let location = findLocationForEntityMeta apis (metadata rowData) in
        \<lparr>tooltip = ''View on GitHub'', isFreeAction = False,
         hidden = not_github location,
         onClick = (\<lambda>s. case location of
                           None \<Rightarrow> s
                         | Some l \<Rightarrow> window_open (target l) ''_blank'' s)\<rparr>),
      PerRow (\<lambda>rowData.
        let location = findLocationForEntityMeta apis (metadata rowData) in
        \<lparr>tooltip = ''Edit'', isFreeAction = False,
         hidden = not_github location,
         onClick = (\<lambda>s. case location of
                           None \<Rightarrow> s
                         | Some l \<Rightarrow> window_open (createEditLink l) ''_blank'' s)\<rparr>),
      PerRow (\<lambda>rowData.
        let isStarred = isStarredEntity apis rowData (external sys) in
        \<lparr>tooltip = favouriteEntityTooltip apis isStarred, isFreeAction = False,
         hidden = False,
         onClick = (\<lambda>s. s\<lparr>external := toggleStarredEntity apis rowData (external s)\<rparr>)\<rparr>),
      Fixed
        \<lparr>tooltip = ''Add example components'', isFreeAction = True,
         hidden = (0 < length (elems (entitiesState sys))),
         onClick = addMockData apis\<rparr>]"

subsection \<open>Rendering\<close>

text \<open>
  The columns, by title and field. (The Name column also carries a renderer linking to the
  entity's page through the routing helpers.)
\<close>

definition columns :: "(string \<times> string) list" where
  "columns =
     [(''Name'', ''metadata.name''), (''Owner'', ''spec.owner''),
      (''Lifecycle'', ''spec.lifecycle''), (''Description'', ''metadata.description'')]"

record table_options =
  paging :: bool
  actionsColumnIndex :: int
  loadingType :: string
  showEmptyDataSourceMessage :: bool

record 'c TableProps =
  isLoading :: bool
  table_columns :: "(string \<times> string) list"
  options :: table_options
  title :: string
  data :: entity_array
  table_actions :: "'c table_action list"

text \<open>
  What a render returns: the error alert with its text, the table, or nothing because
  the render itself threw.
\<close>

datatype 'c element = Alert string string | Table "'c TableProps" | RenderThrows

definition CatalogTable :: "'c apis \<Rightarrow> CatalogTableProps \<Rightarrow> 'c system \<Rightarrow> 'c element" where
  "CatalogTable apis p sys =
     (if js_truthy (errorState sys)
      then (case js_toString (errorState sys) of
              None \<Rightarrow> RenderThrows
            | Some s \<Rightarrow>
                Alert ''error'' (''Error encountered while fetching catalog entities.'' @ '' '' @ s))
      else Table
        \<lparr>isLoading = loading p,
         table_columns = columns,
         options =
           \<lparr>paging = False, actionsColumnIndex = - 1, loadingType = ''linear'',
            showEmptyDataSourceMessage = (\<not> loading p)\<rparr>,
         title =
           titlePreamble p @ '' ('' @ show_nat (js_or_num (length (elems (entities p))) 0) @ '')'',
         data = entitiesState sys,
         table_actions = actions apis sys\<rparr>)"

text \<open>
  Modelled from the spec: the \<open>Table\<close> widget of the core package, which is not part of
  the sources at hand. It draws an action unless the action is hidden, per row for a
  function entry and once for an action object, and it shows the empty-data-source
  message when that option is set and there is no row.
\<close>

fun row_actions :: "'c table_action list \<Rightarrow> entity \<Rightarrow> 'c action list" where
  "row_actions [] row = []"
| "row_actions (PerRow f # as) row = f row # row_actions as row"
| "row_actions (Fixed a # as) row = row_actions as row"

fun free_actions :: "'c table_action list \<Rightarrow> 'c action list" where
  "free_actions [] = []"
| "free_actions (PerRow f # as) = free_actions as"
| "free_actions (Fixed a # as) = a # free_actions as"

definition shown_free_actions :: "'c element \<Rightarrow> string list" where
  "shown_free_actions el =
     (case el of
        Table t \<Rightarrow> map tooltip (filter (\<lambda>a. \<not> hidden a) (free_actions (table_actions t)))
      | _ \<Rightarrow> [])"

definition empty_message_shown :: "'c element \<Rightarrow> bool" where
  "empty_message_shown el =
     (case el of
        Table t \<Rightarrow> showEmptyDataSourceMessage (options t) \<and> elems (data t) = []
      | _ \<Rightarrow> False)"

definition alert_text :: "'c element \<Rightarrow> string option" where
  "alert_text el = (case el of Alert severity txt \<Rightarrow> Some txt | _ \<Rightarrow> None)"

definition table_of :: "'c element \<Rightarrow> 'c TableProps option" where
  "table_of el = (case el of Table t \<Rightarrow> Some t | _ \<Rightarrow> None)"

text \<open>Running the click handler of the action with a given tooltip.\<close>

definition invoke :: "string \<Rightarrow> 'c action list \<Rightarrow> 'c system \<Rightarrow> 'c system" where
  "invoke tip as s =
     (case find (\<lambda>a. tooltip a = tip) as of None \<Rightarrow> s | Some a \<Rightarrow> onClick a s)"

text \<open>
  One render pass with props \<open>p\<close>: the component function runs on the state as it is and
  returns its element; the effect runs after that, on commit, and a state it sets shows
  in the next pass.
\<close>

definition render_pass ::
  "'c apis \<Rightarrow> CatalogTableProps \<Rightarrow> 'c system \<Rightarrow> 'c element \<times> 'c system" where
  "render_pass apis p sys = (CatalogTable apis p sys, useEffect p sys)"

text \<open>
  The table delivers a click only to an action it draws: the state after a click on the
  action with a given tooltip, and \<open>None\<close> when there is no such action to click.
\<close>

definition click :: "string \<Rightarrow> 'c action list \<Rightarrow> 'c system \<Rightarrow> 'c system option" where
  "click tip as s =
     (case find (\<lambda>a. tooltip a = tip) as of
        None \<Rightarrow> None
      | Some a \<Rightarrow> if hidden a then None else Some (onClick a s))"

text \<open>The collaborator calls made by one run of \<open>addMockData\<close>.\<close>

definition new_calls :: "'c apis \<Rightarrow> 'c system \<Rightarrow> api_event list" where
  "new_calls apis sys = drop (length (calls sys)) (calls (addMockData apis sys))"

section \<open>What the collaborators answer\<close>

text \<open>
  The statements about the bootstrap action speak of the collaborators themselves. For a
  base URL and the configured files, \<open>registrations\<close> lists what
  \<open>addLocation('github', baseUrl + '/' + file)\<close> answers for each file in order (outcome and
  backend state left), each call being made on the state the previous call left;
  \<open>backend_after\<close> is the state after the last of them, and \<open>first_thrown\<close> the error of
  the first call that throws.
\<close>

fun registrations ::
  "'c apis \<Rightarrow> string \<Rightarrow> string list \<Rightarrow> 'c \<Rightarrow> (add_outcome \<times> 'c) list" where
  "registrations apis baseUrl [] c = []"
| "registrations apis baseUrl (file # files) c =
     addLocation apis ''github'' (baseUrl @ ''/'' @ file) c
       # registrations apis baseUrl files
           (snd (addLocation apis ''github'' (baseUrl @ ''/'' @ file) c))"

definition backend_after :: "(add_outcome \<times> 'c) list \<Rightarrow> 'c \<Rightarrow> 'c" where
  "backend_after regs c = last (c # map snd regs)"

fun first_thrown :: "add_outcome list \<Rightarrow> jsval option" where
  "first_thrown [] = None"
| "first_thrown (Throws e # outs) = Some e"
| "first_thrown (out # outs) = first_thrown outs"

section \<open>Example collaborators\<close>

text \<open>
  Test doubles on which the theorems below are instantiated. The collaborators' state is
  the list of registered targets, of which \<open>getEntities\<close> returns one entity each, and the
  list of starred entity names.
\<close>

definition example_entity :: "string \<Rightarrow> entity" where
  "example_entity n =
     \<lparr>kind = ''Component'',
      metadata = \<lparr>name = n, namespace = None, description = None\<rparr>,
      spec = \<lparr>owner = ''team-a'', lifecycle = ''production''\<rparr>\<rparr>"

definition example_apis :: "(string list \<times> string list) apis" where
  "example_apis =
     \<lparr>getStringArray = (\<lambda>k. if k = ''catalog.entities'' then Inr [''a.yaml'', ''b.yaml'']
                            else Inl (JError 1 ''Error'' ''missing key'')),
      getString = (\<lambda>k. if k = ''catalog.baseUrl'' then Inr ''https://github.com/o/r/blob/master''
                       else Inl (JError 2 ''Error'' ''missing key'')),
      addLocation = (\<lambda>ty tg (locs, stars). (Resolves, (locs @ [tg], stars))),
      getEntities = (\<lambda>(locs, stars). (Inr \<lparr>ref = 1, elems = map example_entity locs\<rparr>, (locs, stars))),
      findLocationForEntityMeta =
        (\<lambda>m. if name m = ''playback''
             then Some \<lparr>loc_type = ''github'',
                        target = ''https://github.com/o/r/blob/master/playback.yaml''\<rparr>
             else if name m = ''legacy''
             then Some \<lparr>loc_type = ''gitlab'',
                        target = ''https://gitlab.com/o/r/blob/master/legacy.yaml''\<rparr>
             else if name m = ''docs''
             then Some \<lparr>loc_type = ''github'', target = ''https://github.com/o/r/tree/master/docs''\<rparr>
             else None),
      isStarredEntity = (\<lambda>e (locs, stars). name (metadata e) \<in> set stars),
      toggleStarredEntity =
        (\<lambda>e (locs, stars). (locs, if name (metadata e) \<in> set stars
                                  then removeAll (name (metadata e)) stars
                                  else name (metadata e) # stars)),
      favouriteEntityTooltip =
        (\<lambda>isStarred. if isStarred then ''Remove from favorites'' else ''Add to favorites'')\<rparr>"

text \<open>A catalog client whose registrations reject, the second one first in time.\<close>

definition rejecting_apis :: "(string list \<times> string list) apis" where
  "rejecting_apis =
     example_apis\<lparr>addLocation :=
       (\<lambda>ty tg (locs, stars).
          if locs = [] then (Rejects 5 (JError 3 ''Error'' ''slow failure''), ([tg], stars))
          else (Rejects 2 (JError 4 ''Error'' ''fast failure''), (locs @ [tg], stars)))\<rparr>"

definition example_props :: CatalogTableProps where
  "example_props =
     \<lparr>entities = \<lparr>ref = 0, elems = []\<rparr>, loading = False, error = JUndefined,
      titlePreamble = ''Owned''\<rparr>"

definition example_system :: "(string list \<times> string list) system" where
  "example_system = useEffect example_props (mount 9 ([], []))"

section \<open>Auxiliary facts\<close>

lemmas example_defs =
  example_system_def example_apis_def rejecting_apis_def example_props_def example_entity_def
  mount_def useEffect_def deps_changed_def effect_body_def setError_def setEntitiesState_def

lemmas handler_defs =
  addMockData_def addMockData_try_def Promise_all_def new_calls_def failed_def

lemmas render_defs =
  CatalogTable_def actions_def shown_free_actions_def empty_message_shown_def alert_text_def
  table_of_def invoke_def window_open_def createEditLink_def not_github_def js_or_num_def

lemma show_nat_0: "show_nat 0 = ''0''"
  by (simp add: show_nat.simps digit_char_def)

lemma js_includes_length: "js_includes pat s \<Longrightarrow> length pat \<le> length s"
  by (induction s) (auto dest: prefix_length_le)

lemma js_replace_absent: "\<not> js_includes pat s \<Longrightarrow> js_replace pat rep s = s"
  by (induction s) auto

lemma js_replace_first:
  assumes "pat \<noteq> []" "js_includes pat s"
  shows "\<exists>pre post. s = pre @ pat @ post \<and> \<not> js_includes pat (pre @ butlast pat)
           \<and> js_replace pat rep s = pre @ rep @ post"
  using assms(2)
proof (induction s)
  case Nil
  with assms(1) show ?case by simp
next
  case (Cons c cs)
  show ?case
  proof (cases "prefix pat (c # cs)")
    case True
    then obtain post where post: "c # cs = pat @ post"
      by (auto simp: prefix_def)
    have "js_replace pat rep (c # cs) = rep @ drop (length pat) (c # cs)"
      using True by simp
    also have "\<dots> = rep @ post"
      by (simp only: post) simp
    finally have "js_replace pat rep (c # cs) = [] @ rep @ post"
      by simp
    moreover have "\<not> js_includes pat ([] @ butlast pat)"
      using js_includes_length[of pat "butlast pat"] assms(1) by (cases pat) auto
    moreover have "c # cs = [] @ pat @ post"
      using post by simp
    ultimately show ?thesis by blast
  next
    case False
    with Cons.prems have "js_includes pat cs" by simp
    from Cons.IH[OF this] obtain pre post where
      h: "cs = pre @ pat @ post" "\<not> js_includes pat (pre @ butlast pat)"
         "js_replace pat rep cs = pre @ rep @ post" by blast
    have "\<not> prefix pat (c # pre @ butlast pat)"
    proof
      assume "prefix pat (c # pre @ butlast pat)"
      moreover have "prefix (c # pre @ butlast pat) (c # pre @ pat @ post)"
        by (simp add: prefix_def) (metis append_butlast_last_id assms(1) append.assoc)
      ultimately have "prefix pat (c # cs)"
        using h(1) prefix_order.trans by blast
      with False show False by simp
    qed
    with h False have "c # cs = (c # pre) @ pat @ post
        \<and> \<not> js_includes pat ((c # pre) @ butlast pat)
        \<and> js_replace pat rep (c # cs) = (c # pre) @ rep @ post"
      by simp
    then show ?thesis by blast
  qed
qed

lemma new_calls_try: "new_calls apis sys = snd (snd (addMockData_try apis (external sys)))"
  by (simp add: new_calls_def addMockData_def setError_def setEntitiesState_def
      split: prod.splits sum.splits)

lemma map_files_no_GetEntities:
  "map_files apis files c = (r, c', evs) \<Longrightarrow> GetEntities x \<notin> set evs"
  by (induction files arbitrary: c r c' evs)
     (auto split: sum.splits prod.splits add_outcome.splits)

lemma map_files_thrown:
  "map_files apis files c = (Inl e, c', evs) \<Longrightarrow> Some e \<in> set (map event_failure evs)"
  by (induction files arbitrary: c c' evs)
     (auto split: sum.splits prod.splits add_outcome.splits)

lemma map_files_rejected:
  "map_files apis files c = (Inr outs, c', evs) \<Longrightarrow> earliest outs = Some (t, e)
     \<Longrightarrow> Some e \<in> set (map event_failure evs)"
  by (induction files arbitrary: c c' evs outs t e)
     (auto split: sum.splits prod.splits add_outcome.splits option.splits if_splits)

text \<open>The four ways the \<open>try\<close> block of \<open>addMockData\<close> can end.\<close>

lemma try_cases:
  obtains (cfg) e where "getStringArray apis ''catalog.entities'' = Inl e"
      "addMockData_try apis c = (Inl e, c, [GetStringArray ''catalog.entities'' (Inl e)])"
  | (thrown) files e c' evs where "getStringArray apis ''catalog.entities'' = Inr files"
      "map_files apis files c = (Inl e, c', evs)"
      "addMockData_try apis c =
         (Inl e, c', GetStringArray ''catalog.entities'' (Inr files) # evs)"
  | (rejected) files outs c' evs t e where
      "getStringArray apis ''catalog.entities'' = Inr files"
      "map_files apis files c = (Inr outs, c', evs)" "earliest outs = Some (t, e)"
      "addMockData_try apis c =
         (Inl e, c', GetStringArray ''catalog.entities'' (Inr files) # evs)"
  | (fetched) files outs c' evs r c'' where
      "getStringArray apis ''catalog.entities'' = Inr files"
      "map_files apis files c = (Inr outs, c', evs)" "earliest outs = None"
      "getEntities apis c' = (r, c'')"
      "addMockData_try apis c =
         (r, c'', GetStringArray ''catalog.entities'' (Inr files) # evs @ [GetEntities r])"
proof (cases "getStringArray apis ''catalog.entities''")
  case (Inl e)
  then show ?thesis using cfg by (simp add: addMockData_try_def)
next
  case (Inr files)
  obtain r c' evs where m: "map_files apis files c = (r, c', evs)"
    by (cases "map_files apis files c") auto
  show ?thesis
  proof (cases r)
    case (Inl e)
    with Inr m show ?thesis using thrown by (simp add: addMockData_try_def)
  next
    case outs: (Inr outs)
    show ?thesis
    proof (cases "earliest outs")
      case None
      obtain r' c'' where "getEntities apis c' = (r', c'')"
        by (cases "getEntities apis c'") auto
      with None outs Inr m show ?thesis using fetched
        by (simp add: addMockData_try_def Promise_all_def)
    next
      case (Some te)
      then obtain t e where "earliest outs = Some (t, e)" by (cases te) auto
      with outs Inr m show ?thesis using rejected
        by (simp add: addMockData_try_def Promise_all_def)
    qed
  qed
qed

lemma addMockData_clean_errorState:
  assumes "\<not> list_ex failed (new_calls apis sys)"
  shows "errorState (addMockData apis sys) = errorState sys"
proof (cases rule: try_cases[of apis "external sys"])
  case (cfg e)
  with assms show ?thesis by (simp add: new_calls_try failed_def)
next
  case (thrown files e c' evs)
  with assms map_files_thrown[OF thrown(2)] show ?thesis
    by (auto simp: new_calls_try failed_def list_ex_iff)
next
  case (rejected files outs c' evs t e)
  with assms map_files_rejected[OF rejected(2,3)] show ?thesis
    by (auto simp: new_calls_try failed_def list_ex_iff)
next
  case (fetched files outs c' evs r c'')
  from assms fetched(5) have "\<not> failed (GetEntities r)"
    by (auto simp: new_calls_try list_ex_iff)
  then obtain data where "r = Inr data"
    by (cases r) (auto simp: failed_def)
  with fetched show ?thesis
    by (simp add: addMockData_def setEntitiesState_def)
qed

text \<open>The handler's loop against what the collaborators answer.\<close>

lemma backend_after_Cons [simp]: "backend_after (r # regs) c = backend_after regs (snd r)"
  by (simp add: backend_after_def)

lemma backend_after_Nil [simp]: "backend_after [] c = c"
  by (simp add: backend_after_def)

lemma map_files_throws:
  assumes "files \<noteq> [] \<longrightarrow> getString apis ''catalog.baseUrl'' = Inr base"
    and "first_thrown (map fst (registrations apis base files c)) = Some e"
  shows "\<exists>c' evs. map_files apis files c = (Inl e, c', evs)"
  using assms
proof (induction files arbitrary: c)
  case Nil
  then show ?case by simp
next
  case (Cons f fs)
  then have base: "getString apis ''catalog.baseUrl'' = Inr base" by simp
  obtain out c1 where a: "addLocation apis ''github'' (base @ ''/'' @ f) c = (out, c1)"
    by (cases "addLocation apis ''github'' (base @ ''/'' @ f) c") auto
  show ?case
  proof (cases out)
    case (Throws e')
    with Cons.prems(2) a base show ?thesis by simp
  next
    case (Rejects t e')
    with Cons.prems(2) a have "first_thrown (map fst (registrations apis base fs c1)) = Some e"
      by simp
    with Cons.IH[of c1] base obtain c' evs where "map_files apis fs c1 = (Inl e, c', evs)"
      by blast
    with a base Rejects show ?thesis by simp
  next
    case Resolves
    with Cons.prems(2) a have "first_thrown (map fst (registrations apis base fs c1)) = Some e"
      by simp
    with Cons.IH[of c1] base obtain c' evs where "map_files apis fs c1 = (Inl e, c', evs)"
      by blast
    with a base Resolves show ?thesis by simp
  qed
qed

lemma map_files_returns:
  assumes "files \<noteq> [] \<longrightarrow> getString apis ''catalog.baseUrl'' = Inr base"
    and "first_thrown (map fst (registrations apis base files c)) = None"
  shows "map_files apis files c =
     (Inr (map fst (registrations apis base files c)),
      backend_after (registrations apis base files c) c,
      concat (map (\<lambda>(file, r). [GetString ''catalog.baseUrl'' (Inr base),
                AddLocation ''github'' (base @ ''/'' @ file) (fst r)])
              (zip files (registrations apis base files c))))"
  using assms
proof (induction files arbitrary: c)
  case Nil
  then show ?case by simp
next
  case (Cons f fs)
  then have base: "getString apis ''catalog.baseUrl'' = Inr base" by simp
  obtain out c1 where a: "addLocation apis ''github'' (base @ ''/'' @ f) c = (out, c1)"
    by (cases "addLocation apis ''github'' (base @ ''/'' @ f) c") auto
  show ?case
  proof (cases out)
    case (Throws e')
    with Cons.prems(2) a show ?thesis by simp
  next
    case (Rejects t e')
    with Cons.prems(2) a have "first_thrown (map fst (registrations apis base fs c1)) = None"
      by simp
    with Cons.IH[of c1] base a Rejects show ?thesis by simp
  next
    case Resolves
    with Cons.prems(2) a have "first_thrown (map fst (registrations apis base fs c1)) = None"
      by simp
    with Cons.IH[of c1] base a Resolves show ?thesis by simp
  qed
qed

lemma all_resolved:
  assumes "\<forall>r\<in>set regs. fst r = Resolves"
  shows "first_thrown (map fst regs) = None" "earliest (map fst regs) = None"
  using assms by (induction regs) auto

lemma resolved_events:
  assumes "\<forall>r\<in>set (registrations apis base files c). fst r = Resolves"
  shows "concat (map (\<lambda>(file, r). [GetString ''catalog.baseUrl'' (Inr base),
                AddLocation ''github'' (base @ ''/'' @ file) (fst r)])
              (zip files (registrations apis base files c)))
       = concat (map (\<lambda>file. [GetString ''catalog.baseUrl'' (Inr base),
                AddLocation ''github'' (base @ ''/'' @ file) Resolves]) files)"
  using assms by (induction files arbitrary: c) auto

lemma addMockData_state:
  "addMockData_try apis (external sys) = (Inl e, c', evs) \<Longrightarrow>
     errorState (addMockData apis sys) = e \<and> entitiesState (addMockData apis sys) = entitiesState sys
     \<and> external (addMockData apis sys) = c' \<and> new_calls apis sys = evs"
  "addMockData_try apis (external sys) = (Inr d, c', evs) \<Longrightarrow>
     errorState (addMockData apis sys) = errorState sys \<and> entitiesState (addMockData apis sys) = d
     \<and> external (addMockData apis sys) = c' \<and> new_calls apis sys = evs"
  by (simp_all add: addMockData_def new_calls_def setError_def setEntitiesState_def)

lemma no_failure_resolved:
  "first_thrown outs = None \<Longrightarrow> earliest outs = None \<Longrightarrow> \<forall>out\<in>set outs. out = Resolves"
proof (induction outs)
  case Nil
  then show ?case by simp
next
  case (Cons out outs)
  then show ?case by (cases out) (auto split: option.splits if_splits)
qed

lemma bootstrap_cases_exhaustive:
  "(\<exists>e. getStringArray apis ''catalog.entities'' = Inl e
    \<or> (\<exists>files. getStringArray apis ''catalog.entities'' = Inr files \<and> files \<noteq> []
          \<and> getString apis ''catalog.baseUrl'' = Inl e)
    \<or> (\<exists>files base. getStringArray apis ''catalog.entities'' = Inr files
          \<and> (files \<noteq> [] \<longrightarrow> getString apis ''catalog.baseUrl'' = Inr base)
          \<and> (first_thrown (map fst (registrations apis base files c)) = Some e
             \<or> first_thrown (map fst (registrations apis base files c)) = None
               \<and> Promise_all (map fst (registrations apis base files c)) = Some e
             \<or> first_thrown (map fst (registrations apis base files c)) = None
               \<and> Promise_all (map fst (registrations apis base files c)) = None
               \<and> fst (getEntities apis (backend_after (registrations apis base files c) c))
                   = Inl e)))
   \<or> (\<exists>files base fetched c''. getStringArray apis ''catalog.entities'' = Inr files
         \<and> (files \<noteq> [] \<longrightarrow> getString apis ''catalog.baseUrl'' = Inr base)
         \<and> (\<forall>r \<in> set (registrations apis base files c). fst r = Resolves)
         \<and> getEntities apis (backend_after (registrations apis base files c) c)
             = (Inr fetched, c''))"
proof (cases "getStringArray apis ''catalog.entities''")
  case (Inl e)
  then show ?thesis by blast
next
  case files: (Inr files)
  have rest: ?thesis if b: "files \<noteq> [] \<longrightarrow> getString apis ''catalog.baseUrl'' = Inr base" for base
  proof (cases "first_thrown (map fst (registrations apis base files c))")
    case (Some e)
    with files b show ?thesis by blast
  next
    case None
    show ?thesis
    proof (cases "Promise_all (map fst (registrations apis base files c))")
      case (Some e)
      with None files b show ?thesis by blast
    next
      case p: None
      then have "earliest (map fst (registrations apis base files c)) = None"
        by (simp add: Promise_all_def)
      from no_failure_resolved[OF None this]
      have res: "\<forall>r \<in> set (registrations apis base files c). fst r = Resolves" by simp
      obtain r c'' where g: "getEntities apis (backend_after (registrations apis base files c) c)
          = (r, c'')"
        by (cases "getEntities apis (backend_after (registrations apis base files c) c)") auto
      show ?thesis
      proof (cases r)
        case (Inl e)
        with g have "fst (getEntities apis (backend_after (registrations apis base files c) c))
            = Inl e" by simp
        with None p files b show ?thesis by blast
      next
        case (Inr fetched)
        with g res files b show ?thesis by blast
      qed
    qed
  qed
  show ?thesis
  proof (cases "files = []")
    case True
    then show ?thesis using rest[of "[]"] by simp
  next
    case False
    show ?thesis
    proof (cases "getString apis ''catalog.baseUrl''")
      case (Inl e)
      with files False show ?thesis by blast
    next
      case (Inr base)
      then show ?thesis using rest[of base] by simp
    qed
  qed
qed

section \<open>The bootstrap action\<close>

text \<open>
  C1. Take a click on "Add example components" in which a collaborator call fails with
  \<open>e\<close>: the lookup of \<open>catalog.entities\<close> throws \<open>e\<close>; or the lookup of \<open>catalog.baseUrl\<close>
  (made when there is a file) throws \<open>e\<close>; or \<open>e\<close> is the error of the first \<open>addLocation\<close>
  call that throws; or none throws and \<open>e\<close> is the reason of the \<open>addLocation\<close> promise
  that rejects first; or all registrations resolve and \<open>getEntities\<close> fails with \<open>e\<close>.
  Then the error state ends up holding \<open>e\<close>, the displayed entity sequence is the one
  from before the click, and \<open>getEntities\<close> was either not called at all or is itself the
  call that failed with \<open>e\<close>: no fetched result is applied. (By
  \<open>bootstrap_cases_exhaustive\<close> these are all the clicks except the one of C5.)
\<close>

theorem addMockData_all_or_nothing:
  assumes "getStringArray apis ''catalog.entities'' = Inl e
    \<or> (\<exists>files. getStringArray apis ''catalog.entities'' = Inr files \<and> files \<noteq> []
          \<and> getString apis ''catalog.baseUrl'' = Inl e)
    \<or> (\<exists>files base. getStringArray apis ''catalog.entities'' = Inr files
          \<and> (files \<noteq> [] \<longrightarrow> getString apis ''catalog.baseUrl'' = Inr base)
          \<and> (first_thrown (map fst (registrations apis base files (external sys))) = Some e
             \<or> first_thrown (map fst (registrations apis base files (external sys))) = None
               \<and> Promise_all (map fst (registrations apis base files (external sys))) = Some e
             \<or> first_thrown (map fst (registrations apis base files (external sys))) = None
               \<and> Promise_all (map fst (registrations apis base files (external sys))) = None
               \<and> fst (getEntities apis
                     (backend_after (registrations apis base files (external sys)) (external sys)))
                   = Inl e))"
  shows "errorState (addMockData apis sys) = e
    \<and> entitiesState (addMockData apis sys) = entitiesState sys
    \<and> (\<forall>r. GetEntities r \<in> set (new_calls apis sys) \<longrightarrow> r = Inl e)"
proof -
  have "\<exists>c' evs. addMockData_try apis (external sys) = (Inl e, c', evs)
      \<and> (\<forall>r. GetEntities r \<in> set evs \<longrightarrow> r = Inl e)"
    using assms
  proof (elim disjE exE conjE)
    assume "getStringArray apis ''catalog.entities'' = Inl e"
    then show ?thesis by (simp add: addMockData_try_def)
  next
    fix files
    assume f: "getStringArray apis ''catalog.entities'' = Inr files" "files \<noteq> []"
      and b: "getString apis ''catalog.baseUrl'' = Inl e"
    from f(2) b have "map_files apis files (external sys)
        = (Inl e, external sys, [GetString ''catalog.baseUrl'' (Inl e)])"
      by (cases files) simp_all
    with f(1) show ?thesis by (simp add: addMockData_try_def)
  next
    fix files base
    assume f: "getStringArray apis ''catalog.entities'' = Inr files"
      and b: "files \<noteq> [] \<longrightarrow> getString apis ''catalog.baseUrl'' = Inr base"
      and t: "first_thrown (map fst (registrations apis base files (external sys))) = Some e"
    from map_files_throws[OF b t] obtain c' evs where
      m: "map_files apis files (external sys) = (Inl e, c', evs)" by blast
    with f map_files_no_GetEntities[OF m] show ?thesis by (simp add: addMockData_try_def)
  next
    fix files base
    assume f: "getStringArray apis ''catalog.entities'' = Inr files"
      and b: "files \<noteq> [] \<longrightarrow> getString apis ''catalog.baseUrl'' = Inr base"
      and t: "first_thrown (map fst (registrations apis base files (external sys))) = None"
      and p: "Promise_all (map fst (registrations apis base files (external sys))) = Some e"
    note m = map_files_returns[OF b t]
    with f p map_files_no_GetEntities[OF m] show ?thesis by (simp add: addMockData_try_def)
  next
    fix files base
    assume f: "getStringArray apis ''catalog.entities'' = Inr files"
      and b: "files \<noteq> [] \<longrightarrow> getString apis ''catalog.baseUrl'' = Inr base"
      and t: "first_thrown (map fst (registrations apis base files (external sys))) = None"
      and p: "Promise_all (map fst (registrations apis base files (external sys))) = None"
      and g: "fst (getEntities apis
                 (backend_after (registrations apis base files (external sys)) (external sys)))
               = Inl e"
    note m = map_files_returns[OF b t]
    with f p g map_files_no_GetEntities[OF m] show ?thesis
      by (auto simp add: addMockData_try_def split: prod.splits)
  qed
  then obtain c' evs where "addMockData_try apis (external sys) = (Inl e, c', evs)"
    and "\<forall>r. GetEntities r \<in> set evs \<longrightarrow> r = Inl e" by blast
  with addMockData_state(1)[OF this(1)] show ?thesis by simp
qed

theorem addMockData_all_or_nothing_witness:
  "getStringArray rejecting_apis ''catalog.entities'' = Inr [''a.yaml'', ''b.yaml'']
   \<and> getString rejecting_apis ''catalog.baseUrl'' = Inr ''https://github.com/o/r/blob/master''
   \<and> map fst (registrations rejecting_apis ''https://github.com/o/r/blob/master''
        [''a.yaml'', ''b.yaml''] (external example_system))
      = [Rejects 5 (JError 3 ''Error'' ''slow failure''),
         Rejects 2 (JError 4 ''Error'' ''fast failure'')]
   \<and> errorState (addMockData rejecting_apis example_system) = JError 4 ''Error'' ''fast failure''
   \<and> entitiesState (addMockData rejecting_apis example_system) = entitiesState example_system
   \<and> (\<forall>r. GetEntities r \<notin> set (new_calls rejecting_apis example_system))"
proof -
  have g: "\<forall>r. GetEntities r \<notin> set (new_calls rejecting_apis example_system)"
    by (simp add: example_defs handler_defs)
  have f: "getStringArray rejecting_apis ''catalog.entities'' = Inr [''a.yaml'', ''b.yaml'']"
    by (simp add: example_defs)
  have b: "getString rejecting_apis ''catalog.baseUrl'' = Inr ''https://github.com/o/r/blob/master''"
    by (simp add: example_defs)
  have r: "map fst (registrations rejecting_apis ''https://github.com/o/r/blob/master''
        [''a.yaml'', ''b.yaml''] (external example_system))
      = [Rejects 5 (JError 3 ''Error'' ''slow failure''),
         Rejects 2 (JError 4 ''Error'' ''fast failure'')]"
    by (simp add: example_defs)
  have p: "Promise_all [Rejects 5 (JError 3 ''Error'' ''slow failure''),
         Rejects 2 (JError 4 ''Error'' ''fast failure'')] = Some (JError 4 ''Error'' ''fast failure'')"
    by (simp add: Promise_all_def)
  have t: "first_thrown [Rejects 5 (JError 3 ''Error'' ''slow failure''),
         Rejects 2 (JError 4 ''Error'' ''fast failure'')] = None"
    by simp
  have h: "getStringArray rejecting_apis ''catalog.entities'' = Inl (JError 4 ''Error'' ''fast failure'')
    \<or> (\<exists>files. getStringArray rejecting_apis ''catalog.entities'' = Inr files \<and> files \<noteq> []
          \<and> getString rejecting_apis ''catalog.baseUrl'' = Inl (JError 4 ''Error'' ''fast failure''))
    \<or> (\<exists>files base. getStringArray rejecting_apis ''catalog.entities'' = Inr files
          \<and> (files \<noteq> [] \<longrightarrow> getString rejecting_apis ''catalog.baseUrl'' = Inr base)
          \<and> (first_thrown (map fst (registrations rejecting_apis base files (external example_system))) = Some (JError 4 ''Error'' ''fast failure'')
             \<or> first_thrown (map fst (registrations rejecting_apis base files (external example_system))) = None
               \<and> Promise_all (map fst (registrations rejecting_apis base files (external example_system))) = Some (JError 4 ''Error'' ''fast failure'')
             \<or> first_thrown (map fst (registrations rejecting_apis base files (external example_system))) = None
               \<and> Promise_all (map fst (registrations rejecting_apis base files (external example_system))) = None
               \<and> fst (getEntities rejecting_apis
                     (backend_after (registrations rejecting_apis base files (external example_system)) (external example_system)))
                   = Inl (JError 4 ''Error'' ''fast failure'')))"
    using f b r p t by (intro disjI2 exI[where x = "[''a.yaml'', ''b.yaml'']"]
        exI[where x = "''https://github.com/o/r/blob/master''"]) simp
  from addMockData_all_or_nothing [OF h] f b r g show ?thesis
    by simp
qed

text \<open>
  C5. Take a click on "Add example components" in which every call succeeds: the lookup
  of \<open>catalog.entities\<close> gives the files, the lookup of \<open>catalog.baseUrl\<close> the base URL,
  \<open>addLocation('github', baseUrl + '/' + file)\<close> resolves for each file, and \<open>getEntities\<close>,
  asked once all of them were made, answers with a sequence. Then that sequence becomes
  the displayed entity sequence, the error state is not touched, and the collaborators
  are left in the state \<open>getEntities\<close> left them in after one registration per file. The
  calls made are: the lookup of the files; for each file, in order, a lookup of the base
  URL followed by its registration; then one \<open>getEntities\<close>.
\<close>

theorem addMockData_success:
  assumes "getStringArray apis ''catalog.entities'' = Inr files"
    and "files \<noteq> [] \<longrightarrow> getString apis ''catalog.baseUrl'' = Inr base"
    and "\<forall>r \<in> set (registrations apis base files (external sys)). fst r = Resolves"
    and "getEntities apis
           (backend_after (registrations apis base files (external sys)) (external sys))
         = (Inr fetched, c'')"
  shows "entitiesState (addMockData apis sys) = fetched
    \<and> errorState (addMockData apis sys) = errorState sys
    \<and> external (addMockData apis sys) = c''
    \<and> new_calls apis sys =
        GetStringArray ''catalog.entities'' (Inr files)
          # concat (map (\<lambda>file. [GetString ''catalog.baseUrl'' (Inr base),
                AddLocation ''github'' (base @ ''/'' @ file) Resolves]) files)
          @ [GetEntities (Inr fetched)]"
proof -
  note t = all_resolved[OF assms(3)]
  note m = map_files_returns[OF assms(2) t(1)]
  have "addMockData_try apis (external sys) =
      (Inr fetched, c'',
       GetStringArray ''catalog.entities'' (Inr files)
          # concat (map (\<lambda>file. [GetString ''catalog.baseUrl'' (Inr base),
                AddLocation ''github'' (base @ ''/'' @ file) Resolves]) files)
          @ [GetEntities (Inr fetched)])"
    using assms(1,4) m t(2) resolved_events[OF assms(3)]
    by (simp add: addMockData_try_def Promise_all_def)
  from addMockData_state(2)[OF this] show ?thesis by simp
qed

theorem addMockData_success_witness:
  "getStringArray example_apis ''catalog.entities'' = Inr [''a.yaml'', ''b.yaml'']
   \<and> entitiesState (addMockData example_apis example_system)
       = \<lparr>ref = 1, elems = [example_entity ''https://github.com/o/r/blob/master/a.yaml'',
                            example_entity ''https://github.com/o/r/blob/master/b.yaml'']\<rparr>
   \<and> errorState (addMockData example_apis example_system) = errorState example_system
   \<and> external (addMockData example_apis example_system)
       = ([''https://github.com/o/r/blob/master/a.yaml'',
           ''https://github.com/o/r/blob/master/b.yaml''], [])
   \<and> length (new_calls example_apis example_system) = 6"
proof -
  have f: "getStringArray example_apis ''catalog.entities'' = Inr [''a.yaml'', ''b.yaml'']"
    by (simp add: example_defs)
  have b: "[''a.yaml'', ''b.yaml''] \<noteq> [] \<longrightarrow>
      getString example_apis ''catalog.baseUrl'' = Inr ''https://github.com/o/r/blob/master''"
    by (simp add: example_defs)
  have r: "\<forall>r \<in> set (registrations example_apis ''https://github.com/o/r/blob/master''
        [''a.yaml'', ''b.yaml''] (external example_system)). fst r = Resolves"
    by (simp add: example_defs)
  have g: "getEntities example_apis
       (backend_after (registrations example_apis ''https://github.com/o/r/blob/master''
          [''a.yaml'', ''b.yaml''] (external example_system)) (external example_system))
     = (Inr \<lparr>ref = 1, elems = [example_entity ''https://github.com/o/r/blob/master/a.yaml'',
                            example_entity ''https://github.com/o/r/blob/master/b.yaml'']\<rparr>,
        ([''https://github.com/o/r/blob/master/a.yaml'',
           ''https://github.com/o/r/blob/master/b.yaml''], []))"
    by (simp add: example_system_def example_apis_def example_props_def
        mount_def useEffect_def deps_changed_def effect_body_def setError_def
        setEntitiesState_def backend_after_def)
  from addMockData_success [OF f b r g] f show ?thesis
    by simp
qed

section \<open>Rendering\<close>

text \<open>
  C2, at inputs where it fails. With \<open>error = null\<close> the mirrored error state is not
  \<open>undefined\<close>, yet \<open>if (errorState)\<close> does not fire: no alert is rendered and the table
  is. With an error object that has no usable \<open>toString\<close> the state is not \<open>undefined\<close>
  either, and the render throws instead of returning the alert.
\<close>

theorem set_error_without_alert:
  "errorState (useEffect (example_props\<lparr>error := JNull\<rparr>) (mount 9 ([], []))) \<noteq> JUndefined
   \<and> alert_text (CatalogTable example_apis (example_props\<lparr>error := JNull\<rparr>)
        (useEffect (example_props\<lparr>error := JNull\<rparr>) (mount 9 ([], [])))) = None
   \<and> map_option title (table_of (CatalogTable example_apis (example_props\<lparr>error := JNull\<rparr>)
        (useEffect (example_props\<lparr>error := JNull\<rparr>) (mount 9 ([], []))))) = Some ''Owned (0)''
   \<and> errorState (useEffect (example_props\<lparr>error := JObject 7 None\<rparr>) (mount 9 ([], [])))
        \<noteq> JUndefined
   \<and> alert_text (CatalogTable example_apis (example_props\<lparr>error := JObject 7 None\<rparr>)
        (useEffect (example_props\<lparr>error := JObject 7 None\<rparr>) (mount 9 ([], [])))) = None"
  by (simp add: example_defs render_defs show_nat_0)

text \<open>
  C2, amended. In every render in which the error state is truthy the table is not
  rendered. If the error's \<open>toString()\<close> yields a text, the component returns only the error
  alert, whose text ends with it; if \<open>toString\<close> is missing or throws, the render throws.
\<close>

theorem truthy_error_renders_alert:
  assumes "js_truthy (errorState sys)"
  shows "table_of (CatalogTable apis p sys) = None
    \<and> (\<forall>s. js_toString (errorState sys) = Some s \<longrightarrow>
          CatalogTable apis p sys =
            Alert ''error'' (''Error encountered while fetching catalog entities. '' @ s))
    \<and> (js_toString (errorState sys) = None \<longrightarrow> CatalogTable apis p sys = RenderThrows)"
  using assms by (simp add: CatalogTable_def table_of_def split: option.splits)

theorem truthy_error_renders_alert_witness:
  "js_truthy (errorState (addMockData rejecting_apis example_system))
   \<and> CatalogTable rejecting_apis example_props (addMockData rejecting_apis example_system) =
        Alert ''error'' ''Error encountered while fetching catalog entities. Error: fast failure''
   \<and> CatalogTable example_apis example_props (example_system\<lparr>errorState := JObject 7 None\<rparr>)
        = RenderThrows"
proof -
  have h: "js_truthy (errorState (addMockData rejecting_apis example_system))"
    by (simp add: example_defs handler_defs)
  have s: "js_toString (errorState (addMockData rejecting_apis example_system))
      = Some ''Error: fast failure''"
    by (simp add: example_defs handler_defs)
  have h': "js_truthy (errorState (example_system\<lparr>errorState := JObject 7 None\<rparr>))"
    by simp
  from truthy_error_renders_alert [OF h, of rejecting_apis example_props]
    truthy_error_renders_alert [OF h', of example_apis example_props] s h
  show ?thesis by simp
qed

text \<open>
  C3, at an input where it fails. After a failed bootstrap the displayed entity sequence
  still has length 0, but the render returns the alert and the "Add example components"
  action is nowhere on screen.
\<close>

theorem add_action_absent_under_error:
  "length (elems (entitiesState (addMockData rejecting_apis example_system))) = 0
   \<and> ''Add example components'' \<notin> set (shown_free_actions
        (CatalogTable rejecting_apis example_props (addMockData rejecting_apis example_system)))"
  by (simp add: example_defs handler_defs render_defs)

text \<open>
  C3, amended. In every state whose error state is falsy (so that the table is rendered),
  the "Add example components" action is shown if and only if the local entity state has
  length 0.
\<close>

theorem add_action_visible_iff_empty:
  assumes "\<not> js_truthy (errorState sys)"
  shows "''Add example components'' \<in> set (shown_free_actions (CatalogTable apis p sys))
     \<longleftrightarrow> length (elems (entitiesState sys)) = 0"
  using assms by (simp add: render_defs)

theorem add_action_visible_iff_empty_witness:
  "\<not> js_truthy (errorState example_system)
   \<and> ''Add example components'' \<in> set (shown_free_actions
        (CatalogTable example_apis example_props example_system))
   \<and> length (elems (entitiesState example_system)) = 0
   \<and> \<not> js_truthy (errorState (addMockData example_apis example_system))
   \<and> ''Add example components'' \<notin> set (shown_free_actions
        (CatalogTable example_apis example_props (addMockData example_apis example_system)))
   \<and> length (elems (entitiesState (addMockData example_apis example_system))) \<noteq> 0"
proof -
  have h: "\<not> js_truthy (errorState example_system)"
    by (simp add: example_defs)
  have h': "\<not> js_truthy (errorState (addMockData example_apis example_system))"
    by (simp add: example_defs handler_defs)
  have e: "length (elems (entitiesState example_system)) = 0"
    by (simp add: example_defs)
  have e': "length (elems (entitiesState (addMockData example_apis example_system))) \<noteq> 0"
    by (simp add: example_defs handler_defs)
  from add_action_visible_iff_empty [OF h, of example_apis example_props]
    add_action_visible_iff_empty [OF h', of example_apis example_props] h h' e e'
  show ?thesis by simp
qed

text \<open>
  C8. With props \<open>entities = []\<close>, \<open>loading = false\<close>, \<open>error = undefined\<close>, the first
  render after mounting, and every render after the effect has mirrored these props,
  gives the table titled \<open>titlePreamble\<close> followed by \<open>(0)\<close>, with the empty-data-source
  message and with the "Add example components" action shown.
\<close>

theorem empty_catalog_scenario:
  assumes "elems (entities p) = []" "\<not> loading p" "error p = JUndefined"
    and "sys = mount r c \<or> (\<exists>sys'. deps_changed p sys' \<and> sys = useEffect p sys')"
  shows "map_option title (table_of (CatalogTable apis p sys)) = Some (titlePreamble p @ '' (0)'')
    \<and> empty_message_shown (CatalogTable apis p sys)
    \<and> shown_free_actions (CatalogTable apis p sys) = [''Add example components'']"
proof -
  from assms(4) assms(1,3)
  have st: "errorState sys = JUndefined \<and> elems (entitiesState sys) = []"
    by (auto simp: mount_def useEffect_def effect_body_def setError_def setEntitiesState_def)
  with assms(1,2) show ?thesis
    by (simp add: render_defs show_nat_0)
qed

theorem empty_catalog_scenario_witness:
  "map_option title (table_of (CatalogTable example_apis example_props example_system))
       = Some ''Owned (0)''
   \<and> empty_message_shown (CatalogTable example_apis example_props example_system)
   \<and> shown_free_actions (CatalogTable example_apis example_props example_system)
       = [''Add example components'']"
proof -
  have a: "elems (entities example_props) = []" "\<not> loading example_props"
      "error example_props = JUndefined" "titlePreamble example_props = ''Owned''"
    by (simp_all add: example_props_def)
  have b: "example_system = mount 9 ([], [])
     \<or> (\<exists>sys'. deps_changed example_props sys' \<and> example_system = useEffect example_props sys')"
    unfolding example_system_def
    by (rule disjI2, rule exI[where x = "mount 9 ([], [])"]) (simp add: deps_changed_def mount_def)
  from empty_catalog_scenario [OF a(1,2,3) b, of example_apis] a(4)
  show ?thesis by simp
qed

text \<open>
  C9. Whenever the table is rendered its title is \<open>titlePreamble\<close>, a space and the
  length of the \<open>entities\<close> prop in parentheses, whatever the state. A bootstrap without
  a failing call leaves the title as it was while the table's data becomes the fetched
  sequence; with the example collaborators the title then reads \<open>(0)\<close> over two rows.
\<close>

theorem title_counts_entities_prop:
  "(\<forall>t. CatalogTable apis p sys = Table t \<longrightarrow>
       title t = titlePreamble p @ '' ('' @ show_nat (length (elems (entities p))) @ '')'')
   \<and> (\<not> list_ex failed (new_calls apis sys) \<longrightarrow>
        map_option title (table_of (CatalogTable apis p (addMockData apis sys)))
          = map_option title (table_of (CatalogTable apis p sys))
        \<and> map_option data (table_of (CatalogTable apis p (addMockData apis sys)))
          = map_option (\<lambda>t. entitiesState (addMockData apis sys)) (table_of (CatalogTable apis p sys)))
   \<and> map_option (\<lambda>t. (title t, length (elems (data t))))
        (table_of (CatalogTable example_apis example_props
           (addMockData example_apis example_system))) = Some (''Owned (0)'', 2)"
proof (intro conjI allI impI)
  fix t assume "CatalogTable apis p sys = Table t"
  then show "title t = titlePreamble p @ '' ('' @ show_nat (length (elems (entities p))) @ '')''"
    by (auto simp: CatalogTable_def js_or_num_def split: if_splits option.splits)
next
  assume ok: "\<not> list_ex failed (new_calls apis sys)"
  from addMockData_clean_errorState [OF this]
  have e: "errorState (addMockData apis sys) = errorState sys" .
  then show "map_option title (table_of (CatalogTable apis p (addMockData apis sys)))
          = map_option title (table_of (CatalogTable apis p sys))"
    by (simp add: CatalogTable_def table_of_def split: option.splits)
  from e show "map_option data (table_of (CatalogTable apis p (addMockData apis sys)))
          = map_option (\<lambda>t. entitiesState (addMockData apis sys)) (table_of (CatalogTable apis p sys))"
    by (simp add: CatalogTable_def table_of_def split: option.splits)
next
  show "map_option (\<lambda>t. (title t, length (elems (data t))))
        (table_of (CatalogTable example_apis example_props
           (addMockData example_apis example_system))) = Some (''Owned (0)'', 2)"
    by (simp add: example_defs handler_defs render_defs show_nat_0)
qed

theorem title_counts_entities_prop_witness:
  "\<not> list_ex failed (new_calls example_apis example_system)
   \<and> map_option title (table_of (CatalogTable example_apis example_props
        (addMockData example_apis example_system))) = Some ''Owned (0)''
   \<and> map_option (\<lambda>t. length (elems (data t))) (table_of (CatalogTable example_apis example_props
        (addMockData example_apis example_system))) = Some 2"
proof -
  have h: "\<not> list_ex failed (new_calls example_apis example_system)"
    by (simp add: example_defs handler_defs)
  have b: "map_option title (table_of (CatalogTable example_apis example_props example_system))
      = Some ''Owned (0)''"
    by (simp add: example_defs render_defs show_nat_0)
  have n: "map_option (\<lambda>t. length (elems (data t))) (table_of (CatalogTable example_apis
        example_props (addMockData example_apis example_system))) = Some 2"
    by (simp add: example_defs handler_defs render_defs)
  from title_counts_entities_prop [of example_apis example_props example_system] h b n
  show ?thesis by simp
qed

section \<open>Mirroring the props\<close>

text \<open>
  C6, at an input where it fails. The component is mounted with an \<open>error\<close> prop: the
  render pass that receives it returns the table with the "Add example components" action
  and no alert, since the error state is still the initial one.
\<close>

theorem first_render_shows_previous_state:
  "js_truthy (error (example_props\<lparr>error := JError 8 ''Error'' ''fetch failed''\<rparr>))
   \<and> deps_changed (example_props\<lparr>error := JError 8 ''Error'' ''fetch failed''\<rparr>) (mount 9 ([], []))
   \<and> alert_text (fst (render_pass example_apis
        (example_props\<lparr>error := JError 8 ''Error'' ''fetch failed''\<rparr>) (mount 9 ([], [])))) = None
   \<and> shown_free_actions (fst (render_pass example_apis
        (example_props\<lparr>error := JError 8 ''Error'' ''fetch failed''\<rparr>) (mount 9 ([], []))))
      = [''Add example components'']"
  by (simp add: render_pass_def example_defs render_defs)

text \<open>
  C6, amended. When a render pass brings a value of \<open>error\<close> or \<open>entities\<close> that differs
  from the one remembered (or is the first), that pass still renders from the state as it
  was; the effect that follows it sets the error state to the \<open>error\<close> prop and the entity
  state to the \<open>entities\<close> prop, whatever they held before, and touches nothing else; the
  next pass renders from the new values.
\<close>

theorem useEffect_mirrors_props:
  assumes "deps_changed p sys"
  shows "fst (render_pass apis p sys) = CatalogTable apis p sys
    \<and> errorState (snd (render_pass apis p sys)) = error p
    \<and> entitiesState (snd (render_pass apis p sys)) = entities p
    \<and> external (snd (render_pass apis p sys)) = external sys
    \<and> calls (snd (render_pass apis p sys)) = calls sys
    \<and> opened (snd (render_pass apis p sys)) = opened sys
    \<and> fst (render_pass apis p (snd (render_pass apis p sys)))
        = CatalogTable apis p (sys\<lparr>errorState := error p, entitiesState := entities p\<rparr>)"
  using assms
  by (simp add: render_pass_def useEffect_def effect_body_def setError_def setEntitiesState_def
      CatalogTable_def actions_def)

theorem useEffect_mirrors_props_witness:
  "deps_changed (example_props\<lparr>entities := \<lparr>ref = 5, elems = []\<rparr>\<rparr>)
     (addMockData example_apis example_system)
   \<and> length (elems (entitiesState (addMockData example_apis example_system))) = 2
   \<and> entitiesState (snd (render_pass example_apis (example_props\<lparr>entities := \<lparr>ref = 5, elems = []\<rparr>\<rparr>)
        (addMockData example_apis example_system))) = \<lparr>ref = 5, elems = []\<rparr>
   \<and> errorState (snd (render_pass example_apis (example_props\<lparr>entities := \<lparr>ref = 5, elems = []\<rparr>\<rparr>)
        (addMockData example_apis example_system))) = JUndefined"
proof -
  have h: "deps_changed (example_props\<lparr>entities := \<lparr>ref = 5, elems = []\<rparr>\<rparr>)
     (addMockData example_apis example_system)"
    by (simp add: example_defs handler_defs)
  have n: "length (elems (entitiesState (addMockData example_apis example_system))) = 2"
    by (simp add: example_defs handler_defs)
  from useEffect_mirrors_props [OF h, of example_apis] h n show ?thesis
    by (simp add: example_props_def)
qed

section \<open>Row actions\<close>

text \<open>
  C7. For a row whose location does not resolve, or resolves to a type other than
  \<open>github\<close>, the row's first two actions, "View on GitHub" and "Edit", are both hidden.
\<close>

theorem non_github_actions_hidden:
  assumes "findLocationForEntityMeta apis (metadata row) = None
     \<or> (\<exists>l. findLocationForEntityMeta apis (metadata row) = Some l \<and> loc_type l \<noteq> ''github'')"
  shows "map (\<lambda>a. (tooltip a, hidden a)) (take 2 (row_actions (actions apis sys) row))
     = [(''View on GitHub'', True), (''Edit'', True)]"
  using assms by (auto simp: actions_def not_github_def Let_def)

theorem non_github_actions_hidden_witness:
  "map (\<lambda>a. (tooltip a, hidden a))
       (take 2 (row_actions (actions example_apis example_system) (example_entity ''legacy'')))
     = [(''View on GitHub'', True), (''Edit'', True)]
   \<and> map (\<lambda>a. (tooltip a, hidden a))
       (take 2 (row_actions (actions example_apis example_system) (example_entity ''unknown'')))
     = [(''View on GitHub'', True), (''Edit'', True)]
   \<and> map (\<lambda>a. (tooltip a, hidden a))
       (take 2 (row_actions (actions example_apis example_system) (example_entity ''playback'')))
     = [(''View on GitHub'', False), (''Edit'', False)]"
proof -
  have a: "\<exists>l. findLocationForEntityMeta example_apis (metadata (example_entity ''legacy''))
      = Some l \<and> loc_type l \<noteq> ''github''"
    by (simp add: example_defs)
  have b: "findLocationForEntityMeta example_apis (metadata (example_entity ''unknown'')) = None"
    by (simp add: example_defs)
  have c: "map (\<lambda>a. (tooltip a, hidden a))
       (take 2 (row_actions (actions example_apis example_system) (example_entity ''playback'')))
     = [(''View on GitHub'', False), (''Edit'', False)]"
    by (simp add: example_defs render_defs)
  from non_github_actions_hidden [of example_apis "example_entity ''legacy''" example_system]
    non_github_actions_hidden [of example_apis "example_entity ''unknown''" example_system]
    a b c
  show ?thesis by simp
qed

text \<open>
  C10. For a row whose location does not resolve, the click handlers of "View on GitHub"
  and "Edit" return the state they were given: nothing is opened, nothing changes.
\<close>

theorem unresolved_location_click_noop:
  assumes "findLocationForEntityMeta apis (metadata row) = None"
  shows "invoke ''View on GitHub'' (row_actions (actions apis sys) row) s = s
    \<and> invoke ''Edit'' (row_actions (actions apis sys) row) s = s
    \<and> map tooltip (take 2 (row_actions (actions apis sys) row))
         = [''View on GitHub'', ''Edit'']"
  using assms by (simp add: actions_def invoke_def)

theorem unresolved_location_click_noop_witness:
  "findLocationForEntityMeta example_apis (metadata (example_entity ''unknown'')) = None
   \<and> invoke ''View on GitHub''
       (row_actions (actions example_apis example_system) (example_entity ''unknown''))
       example_system = example_system
   \<and> invoke ''Edit''
       (row_actions (actions example_apis example_system) (example_entity ''unknown''))
       example_system = example_system"
proof -
  have h: "findLocationForEntityMeta example_apis (metadata (example_entity ''unknown'')) = None"
    by (simp add: example_defs)
  from unresolved_location_click_noop [OF h, of example_system example_system] h
  show ?thesis by simp
qed

text \<open>
  C4. Take a row with a resolved location. Whenever a click on "Edit" is delivered (the
  action being drawn, which it is exactly for a \<open>github\<close> location) and the target contains
  \<open>/blob/\<close>, one window is opened, on the target with \<open>/blob/\<close>, at its first occurrence,
  replaced by \<open>/edit/\<close>. Whatever the location type, if the target does not contain
  \<open>/blob/\<close> the "Edit" handler opens one window on the target unchanged.
\<close>

theorem edit_opens_edit_link:
  assumes "findLocationForEntityMeta apis (metadata row) = Some l"
  shows "(\<forall>s'. click ''Edit'' (row_actions (actions apis sys) row) s = Some s' \<longrightarrow>
        js_includes ''/blob/'' (target l) \<longrightarrow>
        (\<exists>pre post. target l = pre @ ''/blob/'' @ post
           \<and> \<not> js_includes ''/blob/'' (pre @ ''/blob'')
           \<and> opened s' = opened s @ [(pre @ ''/edit/'' @ post, ''_blank'')]))
    \<and> (\<not> js_includes ''/blob/'' (target l) \<longrightarrow>
         opened (invoke ''Edit'' (row_actions (actions apis sys) row) s)
           = opened s @ [(target l, ''_blank'')])
    \<and> click ''Edit'' (row_actions (actions apis sys) row) s
        = (if loc_type l = ''github''
           then Some (invoke ''Edit'' (row_actions (actions apis sys) row) s) else None)"
proof -
  have inv: "opened (invoke ''Edit'' (row_actions (actions apis sys) row) s)
      = opened s @ [(createEditLink l, ''_blank'')]"
    using assms by (simp add: actions_def invoke_def window_open_def)
  have clk: "click ''Edit'' (row_actions (actions apis sys) row) s
        = (if loc_type l = ''github''
           then Some (invoke ''Edit'' (row_actions (actions apis sys) row) s) else None)"
    using assms by (simp add: actions_def invoke_def click_def not_github_def)
  have "\<exists>pre post. target l = pre @ ''/blob/'' @ post
         \<and> \<not> js_includes ''/blob/'' (pre @ ''/blob'')
         \<and> createEditLink l = pre @ ''/edit/'' @ post"
    if "loc_type l = ''github''" "js_includes ''/blob/'' (target l)"
    using js_replace_first [of "''/blob/''" "target l" "''/edit/''"] that
    by (simp add: createEditLink_def)
  moreover have "createEditLink l = target l" if "\<not> js_includes ''/blob/'' (target l)"
    using that by (auto simp: createEditLink_def js_replace_absent)
  ultimately show ?thesis
    using inv clk by (auto split: if_splits)
qed

theorem edit_opens_edit_link_witness:
  "map_option opened (click ''Edit''
      (row_actions (actions example_apis example_system) (example_entity ''playback''))
      example_system) = Some [(''https://github.com/o/r/edit/master/playback.yaml'', ''_blank'')]
   \<and> map_option opened (click ''Edit''
      (row_actions (actions example_apis example_system) (example_entity ''docs''))
      example_system) = Some [(''https://github.com/o/r/tree/master/docs'', ''_blank'')]
   \<and> click ''Edit''
      (row_actions (actions example_apis example_system) (example_entity ''legacy''))
      example_system = None"
proof -
  have a: "findLocationForEntityMeta example_apis (metadata (example_entity ''playback''))
     = Some \<lparr>loc_type = ''github'', target = ''https://github.com/o/r/blob/master/playback.yaml''\<rparr>"
    by (simp add: example_defs)
  have b: "findLocationForEntityMeta example_apis (metadata (example_entity ''docs''))
     = Some \<lparr>loc_type = ''github'', target = ''https://github.com/o/r/tree/master/docs''\<rparr>"
    by (simp add: example_defs)
  have c: "findLocationForEntityMeta example_apis (metadata (example_entity ''legacy''))
     = Some \<lparr>loc_type = ''gitlab'', target = ''https://gitlab.com/o/r/blob/master/legacy.yaml''\<rparr>"
    by (simp add: example_defs)
  have d: "map_option opened (click ''Edit''
      (row_actions (actions example_apis example_system) (example_entity ''playback''))
      example_system) = Some [(''https://github.com/o/r/edit/master/playback.yaml'', ''_blank'')]"
    by (simp add: example_defs render_defs click_def)
  have e: "opened example_system = []"
    by (simp add: example_defs)
  have n: "\<not> js_includes ''/blob/'' ''https://github.com/o/r/tree/master/docs''"
    by simp
  from edit_opens_edit_link [OF b, of example_system example_system]
    edit_opens_edit_link [OF c, of example_system example_system]
    edit_opens_edit_link [OF a, of example_system example_system] d e n
  show ?thesis by simp
qed

end
